theory Spec2Isabelle
  imports Main "HOL-Library.Sublist" "HOL-Library.Word"
begin

section \<open>The Windows launcher stub \<open>mover.cpp\<close>\<close>

text \<open>
  The launcher finds \<open>mover.py\<close> beside its own executable, chooses an interpreter from
  the script's first line, builds a quoted command line, runs it as a child process and
  returns the child's exit code. The embedding follows the build in which \<open>DEBUG\<close> is
  not defined. Everything the program asks of Windows and of the C++ runtime (the module
  name, the script's bytes, file attributes, process creation, the child's exit code) is
  a field of the record \<open>os\<close>, so that every theorem holds for every answer the
  operating system may give.
\<close>

subsection \<open>Characters, constants of \<open>windows.h\<close>\<close>

definition backslash :: char where
  "backslash = CHR 0x5C"

definition dquote :: char where
  "dquote = CHR 0x22"

definition newline :: char where
  "newline = CHR 0x0A"

definition tab :: char where
  "tab = CHR 0x09"

definition nul :: char where
  "nul = CHR 0x00"

type_synonym DWORD = "32 word"

text \<open>The values of the Windows SDK headers (\<open>winerror.h\<close>, \<open>minwindef.h\<close>).\<close>

definition NO_ERROR :: DWORD where
  "NO_ERROR = 0"

definition ERROR_FILE_NOT_FOUND :: DWORD where
  "ERROR_FILE_NOT_FOUND = 2"

definition ERROR_PATH_NOT_FOUND :: DWORD where
  "ERROR_PATH_NOT_FOUND = 3"

definition MAX_PATH :: nat where
  "MAX_PATH = 260"

definition SHEBANG :: string where
  "SHEBANG = ''#!''"

subsection \<open>The members of \<open>std::string\<close> the launcher calls\<close>

text \<open>
  The searches return \<open>None\<close> for \<open>std::string::npos\<close>. \<open>erase(0, n)\<close> is \<open>drop n\<close>,
  \<open>erase(pos)\<close> and \<open>substr(0, pos)\<close> are \<open>take pos\<close>; every position the launcher
  passes is within the string, so none of them throws.
\<close>

fun find_last_of :: "string \<Rightarrow> string \<Rightarrow> nat option" where
  "find_last_of [] chars = None"
| "find_last_of (c # s) chars =
     (case find_last_of s chars of
        Some pos \<Rightarrow> Some (Suc pos)
      | None \<Rightarrow> if c \<in> set chars then Some 0 else None)"

fun find_first_not_of :: "string \<Rightarrow> string \<Rightarrow> nat option" where
  "find_first_not_of [] chars = None"
| "find_first_not_of (c # s) chars =
     (if c \<notin> set chars then Some 0 else map_option Suc (find_first_not_of s chars))"

fun find_last_not_of :: "string \<Rightarrow> string \<Rightarrow> nat option" where
  "find_last_not_of [] chars = None"
| "find_last_not_of (c # s) chars =
     (case find_last_not_of s chars of
        Some pos \<Rightarrow> Some (Suc pos)
      | None \<Rightarrow> if c \<notin> set chars then Some 0 else None)"

text \<open>\<open>s.find(t)\<close>: the first position at which \<open>t\<close> occurs in \<open>s\<close>.\<close>

fun find_str :: "string \<Rightarrow> string \<Rightarrow> nat option" where
  "find_str [] t = (if t = [] then Some 0 else None)"
| "find_str (c # s) t =
     (if prefix t (c # s) then Some 0 else map_option Suc (find_str s t))"

text \<open>
  \<open>s.c_str()\<close> and \<open>&s[0]\<close> as a C function reads them: the characters before the first
  NUL.
\<close>

definition c_str :: "string \<Rightarrow> string" where
  "c_str s = takeWhile (\<lambda>c. c \<noteq> nul) s"

subsection \<open>Printing a \<open>DWORD\<close> with \<open>%ld\<close>\<close>

definition digit :: "nat \<Rightarrow> char" where
  "digit d = ''0123456789'' ! d"

function decimal :: "nat \<Rightarrow> string" where
  "decimal n = (if n < 10 then [digit n] else decimal (n div 10) @ [digit (n mod 10)])"
  by pat_completeness auto
termination
  by (relation "measure id") auto

declare decimal.simps [simp del]

text \<open>\<open>long\<close> has 32 bits on Windows, so \<open>%ld\<close> prints the signed reading of the word.\<close>

definition fmt_ld :: "DWORD \<Rightarrow> string" where
  "fmt_ld w = (if sint w < 0 then CHR ''-'' # decimal (nat (- sint w)) else decimal (nat (sint w)))"

subsection \<open>The operating system\<close>

text \<open>
  A created child either never terminates, and then \<open>WaitForSingleObject\<close> with
  \<open>INFINITE\<close> never returns, or the wait returns and \<open>GetExitCodeProcess\<close> is called:
  \<open>Waited (Some c)\<close> when that call stores \<open>c\<close>, \<open>Waited None\<close> when it fails and stores
  nothing.
\<close>

datatype child = Never_exits | Waited "DWORD option"

text \<open>\<open>CreateProcess\<close>: failure with the value \<open>GetLastError\<close> then returns, or a child.\<close>

datatype spawn = Failed DWORD | Created child

record os =
  GetModuleFileName :: "nat \<times> string"
  GetLastError :: DWORD
  ifstream :: "string \<Rightarrow> string option"
  GetFileAttributes :: "string \<Rightarrow> bool"
  CreateProcess :: "string \<Rightarrow> spawn"

text \<open>
  \<^item> \<open>GetModuleFileName\<close>: the return value of the call and the bytes it left in the
    buffer \<open>moduleName\<close>;
  \<^item> \<open>GetLastError\<close>: the error code read after a failed \<open>GetModuleFileName\<close>;
  \<^item> \<open>ifstream\<close>: the bytes the stream opened on a file name delivers, \<open>None\<close> when the
    file cannot be opened;
  \<^item> \<open>GetFileAttributes\<close>: whether the call returns something other than
    \<open>INVALID_FILE_ATTRIBUTES\<close> for a name;
  \<^item> \<open>CreateProcess\<close>: what happens when a command line is run.
\<close>

subsection \<open>\<open>dirnameOf\<close> and the functions of \<open>main\<close>\<close>

text \<open>A thrown value is the left summand; \<open>catch (...)\<close> in \<open>main\<close> takes every one.\<close>

definition dirnameOf :: "string \<Rightarrow> DWORD + string" where
  "dirnameOf fname =
     (case find_last_of fname [backslash, CHR ''/''] of
        None \<Rightarrow> Inl ERROR_PATH_NOT_FOUND
      | Some pos \<Rightarrow> Inr (take pos fname))"

definition GetCurrentModuleName :: "os \<Rightarrow> DWORD + string" where
  "GetCurrentModuleName os =
     (let (result, moduleName) = GetModuleFileName os
      in if result = 0 \<or> result = MAX_PATH then Inl (GetLastError os)
         else Inr (c_str moduleName))"

definition FindPythonScript :: "string \<Rightarrow> DWORD + string" where
  "FindPythonScript exeFullPath =
     (case dirnameOf exeFullPath of
        Inl e \<Rightarrow> Inl e
      | Inr dir \<Rightarrow> Inr (dir @ backslash # ''mover.py''))"

text \<open>
  \<open>std::getline\<close> on the stream: whether the extraction succeeded, and the line. It fails
  on a stream that did not open and on one with no byte left; otherwise it takes the
  bytes before the first newline.
\<close>

definition getline :: "string option \<Rightarrow> bool \<times> string" where
  "getline infile =
     (case infile of
        None \<Rightarrow> (False, [])
      | Some bytes \<Rightarrow>
          if bytes = [] then (False, []) else (True, takeWhile (\<lambda>c. c \<noteq> newline) bytes))"

text \<open>The body of the \<open>if\<close> at lines 108 to 127: the marker erased, then the two trims.\<close>

definition strip_shebang :: "string \<Rightarrow> string" where
  "strip_shebang firstLine =
     (let extra_chars = [CHR '' '', tab];
          l0 = drop (length SHEBANG) firstLine;
          l1 = (case find_first_not_of l0 extra_chars of
                  Some ltrim \<Rightarrow> drop ltrim l0
                | None \<Rightarrow> l0);
          l2 = (case find_last_not_of l1 extra_chars of
                  Some rtrim \<Rightarrow> take (rtrim + 1) l1
                | None \<Rightarrow> l1)
      in l2)"

text \<open>Lines 106 to 141, after the stream has been opened.\<close>

definition interpreter_of :: "os \<Rightarrow> string option \<Rightarrow> string" where
  "interpreter_of os infile =
     (let (ok, line) = getline infile;
          firstLine = (if ok \<and> find_str line SHEBANG = Some 0 then strip_shebang line else line)
      in if firstLine \<noteq> [] \<and> GetFileAttributes os (c_str firstLine) then firstLine
         else ''python.exe'')"

definition GetPythonExecutable :: "os \<Rightarrow> string \<Rightarrow> DWORD + string" where
  "GetPythonExecutable os exeFullPath =
     (case dirnameOf exeFullPath of
        Inl e \<Rightarrow> Inl e
      | Inr dir \<Rightarrow>
          let scriptName = dir @ backslash # ''mover.py''
          in Inr (interpreter_of os (ifstream os (c_str scriptName))))"

definition GetDoubleQuotedString :: "string \<Rightarrow> string" where
  "GetDoubleQuotedString input = [dquote] @ input @ [dquote]"

text \<open>
  \<open>ExecuteCommand\<close> returns what it wrote to the error stream together with its result,
  and \<open>None\<close> when it never returns.
\<close>

definition not_found_message :: "string \<Rightarrow> string" where
  "not_found_message command =
     ''Error! Python executable in ['' @ c_str command @ ''] cannot be found.'' @ [newline]"

definition create_failed_message :: "string \<Rightarrow> DWORD \<Rightarrow> string" where
  "create_failed_message command error =
     ''Error! CreateProcess for ['' @ c_str command @ ''] failed with error code: ''
       @ fmt_ld error @ [newline]"

definition ExecuteCommand :: "os \<Rightarrow> string \<Rightarrow> bool \<Rightarrow> (string \<times> (DWORD + DWORD)) option" where
  "ExecuteCommand os command printError =
     (case CreateProcess os (c_str command) of
        Failed error \<Rightarrow>
          Some ((if error = ERROR_FILE_NOT_FOUND
                 then (if printError then not_found_message command else [])
                 else (if printError then create_failed_message command error else [])),
                Inl error)
      | Created Never_exits \<Rightarrow> None
      | Created (Waited report) \<Rightarrow>
          Some ([], Inr (case report of None \<Rightarrow> NO_ERROR | Some exitCode \<Rightarrow> exitCode)))"

text \<open>The loop of lines 220 to 225, \<open>argc\<close> being the length of \<open>argv\<close>.\<close>

function forward_arguments :: "nat \<Rightarrow> string list \<Rightarrow> string \<Rightarrow> string" where
  "forward_arguments i argv command =
     (if i < length argv
      then forward_arguments (Suc i) argv
             ((command @ '' '') @ ('' '' @ [dquote] @ argv ! i @ [dquote]))
      else command)"
  by pat_completeness auto
termination
  by (relation "measure (\<lambda>(i, argv, command). length argv - i)") auto

declare forward_arguments.simps [simp del]

definition command_line :: "string \<Rightarrow> string \<Rightarrow> string list \<Rightarrow> string" where
  "command_line pythonExecutable pythonScript argv =
     forward_arguments 1 argv
       (GetDoubleQuotedString pythonExecutable @ '' '' @ GetDoubleQuotedString pythonScript)"

text \<open>The \<open>try\<close> block of \<open>main\<close>.\<close>

definition main_try :: "os \<Rightarrow> string list \<Rightarrow> (string \<times> (DWORD + DWORD)) option" where
  "main_try os argv =
     (case GetCurrentModuleName os of
        Inl e \<Rightarrow> Some ([], Inl e)
      | Inr exeFullPath \<Rightarrow>
          (case GetPythonExecutable os exeFullPath of
             Inl e \<Rightarrow> Some ([], Inl e)
           | Inr pythonExecutable \<Rightarrow>
               (case FindPythonScript exeFullPath of
                  Inl e \<Rightarrow> Some ([], Inl e)
                | Inr pythonScript \<Rightarrow>
                    ExecuteCommand os (command_line pythonExecutable pythonScript argv) True)))"

text \<open>
  What a run of the launcher leaves: the text on the error stream and the \<open>int\<close> that
  \<open>main\<close> returns. \<open>main\<close> is \<open>None\<close> when the launcher never returns. The returned
  \<open>unsigned long\<close> becomes an \<open>int\<close> of 32 bits, the same bits read as signed.
\<close>

record outcome =
  stderr :: string
  status :: int

definition failed_line :: string where
  "failed_line = ''Failed to execute the Python script...'' @ [newline]"

definition main :: "os \<Rightarrow> string list \<Rightarrow> outcome option" where
  "main os argv =
     (case main_try os argv of
        None \<Rightarrow> None
      | Some (err, Inr exitCode) \<Rightarrow> Some \<lparr>stderr = err, status = sint exitCode\<rparr>
      | Some (err, Inl e) \<Rightarrow> Some \<lparr>stderr = err @ failed_line, status = 1\<rparr>)"

text \<open>The lines on the error stream: each ends with a newline.\<close>

definition line_count :: "string \<Rightarrow> nat" where
  "line_count s = length (filter (\<lambda>c. c = newline) s)"

section \<open>The specification's own notions\<close>

text \<open>
  These follow the words of the specification, not the code: the remainder of the first
  line with spaces and tabs trimmed from both ends, and a command line whose parts are
  joined by one space each.
\<close>

definition blank :: "char \<Rightarrow> bool" where
  "blank c \<longleftrightarrow> c = CHR '' '' \<or> c = tab"

definition trim_blanks :: "string \<Rightarrow> string" where
  "trim_blanks s = rev (dropWhile blank (rev (dropWhile blank s)))"

fun join_with_space :: "string list \<Rightarrow> string" where
  "join_with_space [] = []"
| "join_with_space [x] = x"
| "join_with_space (x # y # zs) = x @ '' '' @ join_with_space (y # zs)"

definition command_line_one_space :: "string \<Rightarrow> string \<Rightarrow> string list \<Rightarrow> string" where
  "command_line_one_space pythonExecutable pythonScript argv =
     join_with_space (map GetDoubleQuotedString (pythonExecutable # pythonScript # drop 1 argv))"

section \<open>Sample installations\<close>

text \<open>
  A launcher installed as \<open>C:\ros\bin\mover.exe\<close>, with one script beside it, one
  predicate for the files that exist and one outcome for every \<open>CreateProcess\<close>. The
  samples below are the concrete inputs at which the theorems are tried.
\<close>

definition exe_path :: string where
  "exe_path = ''C:'' @ backslash # ''ros'' @ backslash # ''bin'' @ backslash # ''mover.exe''"

definition script_path :: string where
  "script_path = ''C:'' @ backslash # ''ros'' @ backslash # ''bin'' @ backslash # ''mover.py''"

definition python39 :: string where
  "python39 = ''C:'' @ backslash # ''Python39'' @ backslash # ''python.exe''"

definition installed :: "string option \<Rightarrow> (string \<Rightarrow> bool) \<Rightarrow> spawn \<Rightarrow> os" where
  "installed script attributes child =
     \<lparr>GetModuleFileName = (length exe_path, exe_path),
      GetLastError = 0,
      ifstream = (\<lambda>name. if name = script_path then script else None),
      GetFileAttributes = attributes,
      CreateProcess = (\<lambda>command. child)\<rparr>"

definition is_python39 :: "string \<Rightarrow> bool" where
  "is_python39 name \<longleftrightarrow> name = python39"

definition no_file :: "string \<Rightarrow> bool" where
  "no_file name \<longleftrightarrow> False"

text \<open>
  The scripts: one line that is just an existing path, the shebang line of the
  specification's example, the same with blanks around the path, a shebang line naming
  a file that does not exist, a shebang line followed by one space only, and a script
  with no shebang line at all.
\<close>

definition markerless_script :: string where
  "markerless_script = python39 @ newline # ''print(1)'' @ [newline]"

definition plain_shebang_script :: string where
  "plain_shebang_script = ''#!'' @ python39 @ newline # ''print(1)'' @ [newline]"

definition padded_python39 :: string where
  "padded_python39 = ''  '' @ python39 @ [tab, CHR '' '']"

definition padded_shebang_script :: string where
  "padded_shebang_script = ''#!'' @ padded_python39 @ newline # ''print(1)'' @ [newline]"




definition print_script :: string where
  "print_script = ''print(1)'' @ [newline]"

definition os_markerless :: os where
  "os_markerless = installed (Some markerless_script) is_python39 (Created (Waited (Some 0)))"

definition os_plain :: os where
  "os_plain = installed (Some plain_shebang_script) is_python39 (Created (Waited (Some 0)))"

definition os_padded :: os where
  "os_padded = installed (Some padded_shebang_script) is_python39 (Created (Waited (Some 0)))"



text \<open>
  A launcher whose module name has no directory, one whose module name cannot be
  resolved (\<open>GetModuleFileName\<close> returns 0), one whose interpreter is not found, and
  launchers whose child reports a given exit code or none.
\<close>

definition os_bare :: os where
  "os_bare = (installed None no_file (Failed ERROR_FILE_NOT_FOUND))
     \<lparr>GetModuleFileName := (9, ''mover.exe'')\<rparr>"

definition os_no_module :: os where
  "os_no_module = (installed (Some print_script) no_file (Created (Waited (Some 0))))
     \<lparr>GetModuleFileName := (0, []), GetLastError := 5\<rparr>"

definition os_no_python :: os where
  "os_no_python = installed (Some print_script) no_file (Failed ERROR_FILE_NOT_FOUND)"

definition os_exit :: "DWORD \<Rightarrow> os" where
  "os_exit exitCode = installed (Some print_script) no_file (Created (Waited (Some exitCode)))"

definition os_unreported :: os where
  "os_unreported = installed (Some print_script) no_file (Created (Waited None))"

definition launch_command :: string where
  "launch_command = command_line ''python.exe'' script_path [''mover.exe'']"

section \<open>Properties\<close>

subsection \<open>The directory of a path\<close>

lemma find_last_of_None:
  "find_last_of s chars = None \<longleftrightarrow> (\<forall>c \<in> set s. c \<notin> set chars)"
  by (induction s) (auto split: option.splits)

lemma find_last_of_append:
  assumes "\<forall>c \<in> set name. c \<notin> set chars" and "sep \<in> set chars"
  shows "find_last_of (dir @ sep # name) chars = Some (length dir)"
proof (induction dir)
  case Nil
  from assms(1) have "find_last_of name chars = None"
    by (simp add: find_last_of_None)
  with assms(2) show ?case by simp
next
  case (Cons a dir)
  then show ?case by simp
qed

lemma dirnameOf_split:
  assumes "sep = backslash \<or> sep = CHR ''/''"
    and "\<forall>c \<in> set name. c \<noteq> backslash \<and> c \<noteq> CHR ''/''"
  shows "dirnameOf (dir @ sep # name) = Inr dir"
proof -
  have "find_last_of (dir @ sep # name) [backslash, CHR ''/''] = Some (length dir)"
    using assms by (intro find_last_of_append) auto
  then show ?thesis
    by (simp add: dirnameOf_def)
qed

lemma dirnameOf_no_separator:
  "dirnameOf path = Inl e \<longleftrightarrow>
     e = ERROR_PATH_NOT_FOUND \<and> (\<forall>c \<in> set path. c \<noteq> backslash \<and> c \<noteq> CHR ''/'')"
proof (cases "find_last_of path [backslash, CHR ''/'']")
  case None
  then show ?thesis
    using find_last_of_None [of path "[backslash, CHR ''/'']"] by (auto simp: dirnameOf_def)
next
  case (Some pos)
  then show ?thesis
    using find_last_of_None [of path "[backslash, CHR ''/'']"] by (auto simp: dirnameOf_def)
qed

text \<open>
  A path contains a separator exactly when it splits into a directory, its last
  separator and a name without separators.
\<close>

lemma path_with_separator_splits:
  "(\<exists>c \<in> set path. c = backslash \<or> c = CHR ''/'') \<longleftrightarrow>
   (\<exists>dir sep name. path = dir @ sep # name \<and> (sep = backslash \<or> sep = CHR ''/'') \<and>
      (\<forall>c \<in> set name. c \<noteq> backslash \<and> c \<noteq> CHR ''/''))"
proof
  assume "\<exists>c \<in> set path. c = backslash \<or> c = CHR ''/''"
  then obtain dir sep name
    where "path = dir @ sep # name" and "sep = backslash \<or> sep = CHR ''/''"
      and "\<forall>c \<in> set name. \<not> (c = backslash \<or> c = CHR ''/'')"
    using split_list_last_prop [of path "\<lambda>c. c = backslash \<or> c = CHR ''/''"] by blast
  then show "\<exists>dir sep name. path = dir @ sep # name \<and> (sep = backslash \<or> sep = CHR ''/'') \<and>
      (\<forall>c \<in> set name. c \<noteq> backslash \<and> c \<noteq> CHR ''/'')"
    by blast
next
  assume "\<exists>dir sep name. path = dir @ sep # name \<and> (sep = backslash \<or> sep = CHR ''/'') \<and>
      (\<forall>c \<in> set name. c \<noteq> backslash \<and> c \<noteq> CHR ''/'')"
  then obtain dir sep name
    where path: "path = dir @ sep # name" and sep: "sep = backslash \<or> sep = CHR ''/''"
    by blast
  from path have "sep \<in> set path"
    by simp
  with sep show "\<exists>c \<in> set path. c = backslash \<or> c = CHR ''/''"
    by (rule_tac x = sep in bexI)
qed

text \<open>
  Claim C5. An executable path with at least one separator is \<open>dir @ sep # name\<close>,
  where \<open>sep\<close> is its last separator, so \<open>name\<close> has none and \<open>dir\<close> is the path up
  to, and without, that separator. \<open>FindPythonScript\<close> returns \<open>dir\<close> followed by
  \<open>\mover.py\<close>, whatever the depth of \<open>dir\<close> and its drive letter.
\<close>

theorem FindPythonScript_companion:
  assumes "sep = backslash \<or> sep = CHR ''/''"
    and "\<forall>c \<in> set name. c \<noteq> backslash \<and> c \<noteq> CHR ''/''"
  shows "FindPythonScript (dir @ sep # name) = Inr (dir @ backslash # ''mover.py'')"
  using dirnameOf_split [OF assms] by (simp add: FindPythonScript_def)

theorem FindPythonScript_companion_witness:
  "FindPythonScript exe_path = Inr script_path"
proof -
  have sep: "backslash = backslash \<or> backslash = CHR ''/''"
    by simp
  have name: "\<forall>c \<in> set ''mover.exe''. c \<noteq> backslash \<and> c \<noteq> CHR ''/''"
    by (simp add: backslash_def)
  show ?thesis
    using FindPythonScript_companion
      [OF sep name, of "''C:'' @ backslash # ''ros'' @ backslash # ''bin''"]
    by (simp add: exe_path_def script_path_def)
qed

lemma main_try_no_module:
  assumes "GetCurrentModuleName os = Inl e"
  shows "main_try os argv = Some ([], Inl e)"
  using assms by (simp add: main_try_def)

lemma main_try_no_directory:
  assumes "GetCurrentModuleName os = Inr path" and "dirnameOf path = Inl e"
  shows "main_try os argv = Some ([], Inl e)"
  using assms by (simp add: main_try_def GetPythonExecutable_def)

lemma main_try_launch:
  assumes "GetCurrentModuleName os = Inr exeFullPath"
    and "GetPythonExecutable os exeFullPath = Inr pythonExecutable"
    and "FindPythonScript exeFullPath = Inr pythonScript"
  shows "main_try os argv =
     ExecuteCommand os (command_line pythonExecutable pythonScript argv) True"
  using assms by (simp add: main_try_def)

text \<open>
  Claim C6. For a path without any separator \<open>dirnameOf\<close> throws
  \<open>ERROR_PATH_NOT_FOUND\<close>, so neither \<open>FindPythonScript\<close> nor \<open>GetPythonExecutable\<close>
  returns a path, and a launcher whose module name is such a path writes the one
  failure line and returns 1.
\<close>

theorem no_separator_fails:
  assumes "\<forall>c \<in> set path. c \<noteq> backslash \<and> c \<noteq> CHR ''/''"
  shows "dirnameOf path = Inl ERROR_PATH_NOT_FOUND \<and>
     FindPythonScript path = Inl ERROR_PATH_NOT_FOUND \<and>
     GetPythonExecutable os path = Inl ERROR_PATH_NOT_FOUND \<and>
     (GetCurrentModuleName os = Inr path \<longrightarrow>
        main os argv = Some \<lparr>stderr = failed_line, status = 1\<rparr>)"
proof -
  from assms have dir: "dirnameOf path = Inl ERROR_PATH_NOT_FOUND"
    by (simp only: dirnameOf_no_separator simp_thms)
  then have "FindPythonScript path = Inl ERROR_PATH_NOT_FOUND"
    and "GetPythonExecutable os path = Inl ERROR_PATH_NOT_FOUND"
    by (simp_all add: FindPythonScript_def GetPythonExecutable_def)
  moreover have "main os argv = Some \<lparr>stderr = failed_line, status = 1\<rparr>"
    if "GetCurrentModuleName os = Inr path"
    using main_try_no_directory [OF that dir] by (simp add: main_def)
  ultimately show ?thesis
    using dir by simp
qed

theorem no_separator_fails_witness:
  "dirnameOf ''mover.exe'' = Inl ERROR_PATH_NOT_FOUND \<and>
   FindPythonScript ''mover.exe'' = Inl ERROR_PATH_NOT_FOUND \<and>
   GetPythonExecutable os_bare ''mover.exe'' = Inl ERROR_PATH_NOT_FOUND \<and>
   main os_bare [''mover.exe''] = Some \<lparr>stderr = failed_line, status = 1\<rparr>"
proof -
  have bare: "\<forall>c \<in> set ''mover.exe''. c \<noteq> backslash \<and> c \<noteq> CHR ''/''"
    by (simp add: backslash_def)
  have name: "GetCurrentModuleName os_bare = Inr ''mover.exe''"
    by (simp add: GetCurrentModuleName_def os_bare_def installed_def MAX_PATH_def c_str_def nul_def)
  show ?thesis
    using no_separator_fails [OF bare, of os_bare "[''mover.exe'']"] name by simp
qed

subsection \<open>The searches and the two trims\<close>

lemma find_str_prefix: "find_str s t = Some 0 \<longleftrightarrow> prefix t s"
  by (cases s) auto

lemma find_first_not_of_None:
  "find_first_not_of s chars = None \<longleftrightarrow> (\<forall>c \<in> set s. c \<in> set chars)"
  by (induction s) simp_all

lemma find_first_not_of_Some:
  "find_first_not_of s chars = Some i \<Longrightarrow> drop i s = dropWhile (\<lambda>c. c \<in> set chars) s"
proof (induction s arbitrary: i)
  case Nil
  then show ?case by simp
next
  case (Cons c s)
  show ?case
  proof (cases "c \<in> set chars")
    case True
    with Cons.prems obtain j where "find_first_not_of s chars = Some j" and "i = Suc j"
      by auto
    with True Cons.IH show ?thesis by simp
  next
    case False
    with Cons.prems show ?thesis by simp
  qed
qed

lemma find_last_not_of_None:
  "find_last_not_of s chars = None \<longleftrightarrow> (\<forall>c \<in> set s. c \<in> set chars)"
proof (induction s)
  case Nil
  show ?case by simp
next
  case (Cons c s)
  show ?case
  proof (cases "find_last_not_of s chars")
    case None
    with Cons show ?thesis by simp
  next
    case (Some j)
    with Cons show ?thesis by simp
  qed
qed

lemma find_last_not_of_Some:
  "find_last_not_of s chars = Some i \<Longrightarrow>
   take (Suc i) s = rev (dropWhile (\<lambda>c. c \<in> set chars) (rev s))"
proof (induction s arbitrary: i)
  case Nil
  then show ?case by simp
next
  case (Cons c s)
  show ?case
  proof (cases "find_last_not_of s chars")
    case None
    then have all: "\<forall>x \<in> set (rev s). x \<in> set chars"
      by (simp add: find_last_not_of_None)
    from None Cons.prems have c: "c \<notin> set chars" and i: "i = 0"
      by (simp_all split: if_splits)
    have "dropWhile (\<lambda>c. c \<in> set chars) (rev s @ [c]) = dropWhile (\<lambda>c. c \<in> set chars) [c]"
      using all by (intro dropWhile_append2) simp
    with c i show ?thesis by simp
  next
    case (Some j)
    with Cons.prems have i: "i = Suc j"
      by simp
    from Some have "\<not> (\<forall>x \<in> set s. x \<in> set chars)"
      using find_last_not_of_None [of s chars] by simp
    then obtain x where "x \<in> set (rev s)" and "x \<notin> set chars"
      by auto
    then have "dropWhile (\<lambda>c. c \<in> set chars) (rev s @ [c]) = dropWhile (\<lambda>c. c \<in> set chars) (rev s) @ [c]"
      by (intro dropWhile_append1) simp_all
    with i Cons.IH [OF Some] show ?thesis by simp
  qed
qed

lemma blank_extra_chars: "(c \<in> set [CHR '' '', tab]) = blank c"
  by (auto simp: blank_def)

lemma dropWhile_blank_all:
  "(\<forall>c \<in> set (dropWhile blank s). blank c) \<longleftrightarrow> (\<forall>c \<in> set s. blank c)"
proof
  assume rest: "\<forall>c \<in> set (dropWhile blank s). blank c"
  have "dropWhile blank s = []"
  proof (rule ccontr)
    assume "dropWhile blank s \<noteq> []"
    then have "hd (dropWhile blank s) \<in> set (dropWhile blank s)"
      and "\<not> blank (hd (dropWhile blank s))"
      by (simp_all add: hd_dropWhile)
    with rest show False by blast
  qed
  then show "\<forall>c \<in> set s. blank c"
    by (simp only: dropWhile_eq_Nil_conv)
next
  assume "\<forall>c \<in> set s. blank c"
  then show "\<forall>c \<in> set (dropWhile blank s). blank c"
    using set_dropWhileD by fast
qed

lemma trim_blanks_Nil: "trim_blanks s = [] \<longleftrightarrow> (\<forall>c \<in> set s. blank c)"
proof -
  have "trim_blanks s = [] \<longleftrightarrow> (\<forall>c \<in> set (dropWhile blank s). blank c)"
    unfolding trim_blanks_def by (simp only: rev_is_Nil_conv dropWhile_eq_Nil_conv set_rev)
  then show ?thesis
    by (simp only: dropWhile_blank_all)
qed

text \<open>
  What lines 108 to 127 compute: the trimmed remainder when the remainder has a
  character other than space and tab, and the remainder as it stands when it has
  none, since then both searches return \<open>npos\<close> and neither \<open>erase\<close> runs.
\<close>

lemma strip_shebang_trims:
  "strip_shebang (SHEBANG @ rest) = (if trim_blanks rest = [] then rest else trim_blanks rest)"
proof (cases "trim_blanks rest = []")
  case True
  then have all: "\<forall>c \<in> set rest. c \<in> set [CHR '' '', tab]"
    by (simp only: trim_blanks_Nil blank_extra_chars simp_thms)
  then have "find_first_not_of rest [CHR '' '', tab] = None"
    and "find_last_not_of rest [CHR '' '', tab] = None"
    by (simp_all only: find_first_not_of_None find_last_not_of_None)
  then have "strip_shebang (SHEBANG @ rest) = rest"
    by (simp add: strip_shebang_def SHEBANG_def)
  with True show ?thesis
    by simp
next
  case False
  then have some: "\<not> (\<forall>c \<in> set rest. c \<in> set [CHR '' '', tab])"
    by (simp only: trim_blanks_Nil blank_extra_chars simp_thms)
  then obtain ltrim where ltrim: "find_first_not_of rest [CHR '' '', tab] = Some ltrim"
    using find_first_not_of_None [of rest "[CHR '' '', tab]"] by (cases "find_first_not_of rest [CHR '' '', tab]") blast+
  have l1: "drop ltrim rest = dropWhile blank rest"
    using find_first_not_of_Some [OF ltrim] by (simp only: blank_extra_chars)
  from False have "\<not> (\<forall>c \<in> set (dropWhile blank rest). c \<in> set [CHR '' '', tab])"
    by (simp only: trim_blanks_Nil blank_extra_chars dropWhile_blank_all simp_thms)
  then obtain rtrim
    where rtrim: "find_last_not_of (dropWhile blank rest) [CHR '' '', tab] = Some rtrim"
    using find_last_not_of_None [of "dropWhile blank rest" "[CHR '' '', tab]"]
    by (cases "find_last_not_of (dropWhile blank rest) [CHR '' '', tab]") blast+
  have "take (Suc rtrim) (dropWhile blank rest) = trim_blanks rest"
    using find_last_not_of_Some [OF rtrim] by (simp only: blank_extra_chars trim_blanks_def)
  with ltrim l1 rtrim have "strip_shebang (SHEBANG @ rest) = trim_blanks rest"
    by (simp add: strip_shebang_def SHEBANG_def)
  with False show ?thesis
    by simp
qed

lemma interpreter_of_shebang:
  assumes "getline infile = (True, SHEBANG @ rest)"
  shows "interpreter_of os infile =
     (let candidate = (if trim_blanks rest = [] then rest else trim_blanks rest)
      in if candidate \<noteq> [] \<and> GetFileAttributes os (c_str candidate) then candidate
         else ''python.exe'')"
proof -
  have "find_str (SHEBANG @ rest) SHEBANG = Some 0"
    by (simp add: find_str_prefix)
  then show ?thesis
    unfolding interpreter_of_def assms
    by (simp only: Let_def prod.case strip_shebang_trims simp_thms if_True)
qed

lemma interpreter_of_markerless:
  assumes "getline infile = (ok, line)" and "\<not> (ok \<and> prefix SHEBANG line)"
  shows "interpreter_of os infile =
     (if line \<noteq> [] \<and> GetFileAttributes os (c_str line) then line else ''python.exe'')"
proof -
  from assms(2) have marker: "(ok \<and> find_str line SHEBANG = Some 0) = False"
    by (simp only: find_str_prefix)
  show ?thesis
    unfolding interpreter_of_def assms(1)
    by (simp only: Let_def prod.case marker if_False)
qed

lemma GetPythonExecutable_FindPythonScript:
  "GetPythonExecutable os exeFullPath =
     (case FindPythonScript exeFullPath of
        Inl e \<Rightarrow> Inl e
      | Inr pythonScript \<Rightarrow> Inr (interpreter_of os (ifstream os (c_str pythonScript))))"
  by (simp add: GetPythonExecutable_def FindPythonScript_def split: sum.splits)

text \<open>
  Claim C9. The file \<open>GetPythonExecutable\<close> opens to read the first line is the file
  \<open>FindPythonScript\<close> returns for the command line: both are \<open>dirnameOf\<close> of the
  executable path followed by \<open>\mover.py\<close>, and both throw what \<open>dirnameOf\<close> throws.
\<close>

theorem inspected_script_is_launched_script:
  "GetPythonExecutable os exeFullPath =
     (case FindPythonScript exeFullPath of
        Inl e \<Rightarrow> Inl e
      | Inr pythonScript \<Rightarrow> Inr (interpreter_of os (ifstream os (c_str pythonScript)))) \<and>
   FindPythonScript exeFullPath =
     (case dirnameOf exeFullPath of
        Inl e \<Rightarrow> Inl e
      | Inr dir \<Rightarrow> Inr (dir @ backslash # ''mover.py''))"
  by (simp add: GetPythonExecutable_def FindPythonScript_def split: sum.splits)

subsection \<open>Facts about the samples\<close>

lemma c_str_no_nul: "nul \<notin> set s \<Longrightarrow> c_str s = s"
  unfolding c_str_def by (induction s) auto

lemma c_str_script_path: "c_str script_path = script_path"
  by (rule c_str_no_nul) (simp add: script_path_def nul_def backslash_def)

lemma c_str_exe_path: "c_str exe_path = exe_path"
  by (rule c_str_no_nul) (simp add: exe_path_def nul_def backslash_def)

lemma c_str_python39: "c_str python39 = python39"
  by (rule c_str_no_nul) (simp add: python39_def nul_def backslash_def)

lemma getline_first_line:
  "newline \<notin> set line \<Longrightarrow> getline (Some (line @ newline # rest)) = (True, line)"
  unfolding getline_def by (induction line) auto

lemma getline_shebang_line:
  "newline \<notin> set rest \<Longrightarrow>
   getline (Some (''#!'' @ rest @ newline # body)) = (True, SHEBANG @ rest)"
  using getline_first_line [of "''#!'' @ rest" body] by (simp add: SHEBANG_def newline_def)

lemma newline_python39: "newline \<notin> set python39"
  by (simp add: python39_def newline_def backslash_def)

lemma newline_padded: "newline \<notin> set padded_python39"
  using newline_python39 by (simp add: padded_python39_def newline_def tab_def)

lemma FindPythonScript_exe_path: "FindPythonScript exe_path = Inr script_path"
  by (simp add: exe_path_def script_path_def FindPythonScript_def dirnameOf_def backslash_def)

lemma ifstream_installed: "ifstream (installed script attributes child) (c_str script_path) = script"
  by (simp add: installed_def c_str_script_path)

lemma CreateProcess_installed: "CreateProcess (installed script attributes child) command = child"
  by (simp add: installed_def)

lemma GetCurrentModuleName_installed:
  "GetCurrentModuleName (installed script attributes child) = Inr exe_path"
proof -
  have "length exe_path = 20"
    by (simp add: exe_path_def)
  then show ?thesis
    by (simp add: GetCurrentModuleName_def installed_def MAX_PATH_def c_str_exe_path)
qed

lemma trim_blanks_python39: "trim_blanks python39 = python39"
  by (simp add: trim_blanks_def python39_def blank_def tab_def backslash_def)

lemma trim_blanks_padded: "trim_blanks padded_python39 = python39"
  by (simp add: trim_blanks_def padded_python39_def python39_def blank_def tab_def backslash_def)

subsection \<open>The interpreter chosen\<close>

text \<open>
  When the script cannot be opened or is empty, and when its first line has no marker
  and does not name an existing file, the interpreter is \<open>python.exe\<close>.
\<close>

lemma unreadable_script_default:
  assumes "FindPythonScript exeFullPath = Inr script" and "ifstream os (c_str script) = None"
  shows "GetPythonExecutable os exeFullPath = Inr ''python.exe''"
  using assms by (simp add: GetPythonExecutable_FindPythonScript interpreter_of_def getline_def)

lemma empty_script_default:
  assumes "FindPythonScript exeFullPath = Inr script" and "ifstream os (c_str script) = Some []"
  shows "GetPythonExecutable os exeFullPath = Inr ''python.exe''"
  using assms by (simp add: GetPythonExecutable_FindPythonScript interpreter_of_def getline_def)

lemma markerless_line_default:
  assumes "FindPythonScript exeFullPath = Inr script"
    and "getline (ifstream os (c_str script)) = (True, line)"
    and "\<not> prefix SHEBANG line"
    and "\<not> GetFileAttributes os (c_str line)"
  shows "GetPythonExecutable os exeFullPath = Inr ''python.exe''"
  using assms interpreter_of_markerless [OF assms(2), of os]
  by (simp add: GetPythonExecutable_FindPythonScript)

lemma GetPythonExecutable_print_script:
  "GetPythonExecutable (installed (Some print_script) no_file child) exe_path = Inr ''python.exe''"
proof (rule markerless_line_default [OF FindPythonScript_exe_path])
  show "getline (ifstream (installed (Some print_script) no_file child) (c_str script_path)) =
      (True, ''print(1)'')"
    using getline_first_line [of "''print(1)''" "[]"]
    by (simp add: ifstream_installed print_script_def newline_def)
  show "\<not> prefix SHEBANG ''print(1)''"
    by (simp add: SHEBANG_def)
  show "\<not> GetFileAttributes (installed (Some print_script) no_file child) (c_str ''print(1)'')"
    by (simp add: installed_def no_file_def)
qed

text \<open>
  Claim C1 says that a first line without the marker is never used as the interpreter.
  The code tests \<open>firstLine\<close> for existence outside the \<open>if\<close> that looks for the
  marker, so a first line that is the path of an existing file is returned as the
  interpreter: here the script's first line is \<open>C:\Python39\python.exe\<close>, without
  \<open>#!\<close>, and that file exists.
\<close>

theorem markerless_line_taken_as_interpreter:
  "getline (ifstream os_markerless (c_str script_path)) = (True, python39) \<and>
   \<not> prefix SHEBANG python39 \<and>
   GetPythonExecutable os_markerless exe_path = Inr python39 \<and>
   python39 \<noteq> ''python.exe''"
proof -
  have line: "getline (ifstream os_markerless (c_str script_path)) = (True, python39)"
    by (simp add: os_markerless_def installed_def c_str_script_path markerless_script_def
        getline_first_line newline_python39)
  have marker: "\<not> prefix SHEBANG python39"
    by (simp add: SHEBANG_def python39_def)
  have exists: "GetFileAttributes os_markerless (c_str python39)"
    by (simp add: os_markerless_def installed_def is_python39_def c_str_python39)
  have nonempty: "python39 \<noteq> []"
    by (simp add: python39_def)
  have "interpreter_of os_markerless (ifstream os_markerless (c_str script_path)) = python39"
    using interpreter_of_markerless [OF line, of os_markerless] marker exists nonempty
    by simp
  then have "GetPythonExecutable os_markerless exe_path = Inr python39"
    by (simp add: GetPythonExecutable_FindPythonScript FindPythonScript_exe_path)
  moreover have "python39 \<noteq> ''python.exe''"
    by (simp add: python39_def)
  ultimately show ?thesis
    using line marker by simp
qed

text \<open>
  Claim C7. When the first line is \<open>#!\<close> followed by a remainder whose trimmed form
  is not empty and names an existing file, the interpreter is that trimmed form.
\<close>

theorem shebang_interpreter_chosen:
  assumes "FindPythonScript exeFullPath = Inr script"
    and "getline (ifstream os (c_str script)) = (True, SHEBANG @ rest)"
    and "trim_blanks rest \<noteq> []"
    and "GetFileAttributes os (c_str (trim_blanks rest))"
  shows "GetPythonExecutable os exeFullPath = Inr (trim_blanks rest)"
proof -
  have "interpreter_of os (ifstream os (c_str script)) = trim_blanks rest"
    using assms(3,4) by (simp add: interpreter_of_shebang [OF assms(2)])
  with assms(1) show ?thesis
    by (simp add: GetPythonExecutable_FindPythonScript)
qed

theorem shebang_interpreter_chosen_witness:
  "GetPythonExecutable os_plain exe_path = Inr python39 \<and>
   GetPythonExecutable os_padded exe_path = Inr python39"
proof -
  have plain: "getline (ifstream os_plain (c_str script_path)) = (True, SHEBANG @ python39)"
    by (simp only: os_plain_def ifstream_installed plain_shebang_script_def
        getline_shebang_line [OF newline_python39])
  have padded: "getline (ifstream os_padded (c_str script_path)) = (True, SHEBANG @ padded_python39)"
    by (simp only: os_padded_def ifstream_installed padded_shebang_script_def
        getline_shebang_line [OF newline_padded])
  have nonempty: "python39 \<noteq> []"
    by (simp add: python39_def)
  have exists_plain: "GetFileAttributes os_plain (c_str python39)"
    by (simp add: os_plain_def installed_def is_python39_def c_str_python39)
  have exists_padded: "GetFileAttributes os_padded (c_str python39)"
    by (simp add: os_padded_def installed_def is_python39_def c_str_python39)
  show ?thesis
    using shebang_interpreter_chosen [OF FindPythonScript_exe_path plain]
      shebang_interpreter_chosen [OF FindPythonScript_exe_path padded]
      nonempty exists_plain exists_padded
    by (simp add: trim_blanks_python39 trim_blanks_padded)
qed






subsection \<open>The command line\<close>

lemma forward_arguments_eq:
  "forward_arguments i argv command =
     command @ concat (map (\<lambda>arg. ''  '' @ [dquote] @ arg @ [dquote]) (drop i argv))"
proof (induction i argv command rule: forward_arguments.induct)
  case (1 i argv command)
  show ?case
  proof (cases "i < length argv")
    case True
    then have "drop i argv = argv ! i # drop (Suc i) argv"
      by (simp add: Cons_nth_drop_Suc)
    with True "1.IH" show ?thesis
      by (subst forward_arguments.simps) simp
  next
    case False
    then show ?thesis
      by (subst forward_arguments.simps) simp
  qed
qed

text \<open>
  Claim C3 as stated fails: the loop appends a space and then a string that itself
  starts with a space, so two spaces precede every forwarded argument.
\<close>

theorem command_line_not_one_space:
  "command_line ''python.exe'' ''mover.py'' [''mover.exe'', ''a b'', ''c''] \<noteq>
   command_line_one_space ''python.exe'' ''mover.py'' [''mover.exe'', ''a b'', ''c'']"
  by (simp add: command_line_def forward_arguments_eq command_line_one_space_def
      GetDoubleQuotedString_def dquote_def)

text \<open>
  Claim C3, amended. The command line is the quoted interpreter, one space, the quoted
  script, and then every argument from \<open>argv[1]\<close> on, in order, each in double
  quotes and each preceded by two spaces.
\<close>

theorem command_line_two_spaces:
  "command_line pythonExecutable pythonScript argv =
     GetDoubleQuotedString pythonExecutable @ '' '' @ GetDoubleQuotedString pythonScript @
     concat (map (\<lambda>arg. ''  '' @ GetDoubleQuotedString arg) (drop 1 argv))"
  by (simp add: command_line_def forward_arguments_eq GetDoubleQuotedString_def)

theorem command_line_two_spaces_witness:
  "command_line ''python.exe'' ''mover.py'' [''mover.exe'', ''a b'', ''c''] =
     dquote # ''python.exe'' @ dquote # '' '' @ dquote # ''mover.py'' @ dquote #
     ''  '' @ dquote # ''a b'' @ dquote # ''  '' @ dquote # ''c'' @ [dquote]"
  using command_line_two_spaces [of "''python.exe''" "''mover.py''" "[''mover.exe'', ''a b'', ''c'']"]
  by (simp add: GetDoubleQuotedString_def)

subsection \<open>Diagnostics and the exit code\<close>

lemma line_count_append: "line_count (a @ b) = line_count a + line_count b"
  by (simp add: line_count_def)

lemma line_count_failed_line: "line_count failed_line = 1"
  by (simp add: line_count_def failed_line_def newline_def)

lemma digit_not_newline: "d < 10 \<Longrightarrow> digit d \<noteq> newline"
proof -
  assume "d < 10"
  then have "d \<in> {0, 1, 2, 3, 4, 5, 6, 7, 8, 9}"
    by auto
  then show ?thesis
    by (auto simp: digit_def newline_def)
qed

lemma line_count_decimal: "line_count (decimal n) = 0"
proof (induction n rule: decimal.induct)
  case (1 n)
  show ?case
  proof (cases "n < 10")
    case True
    then show ?thesis
      by (subst decimal.simps) (simp add: line_count_def digit_not_newline)
  next
    case False
    then have "line_count (decimal (n div 10)) = 0"
      by (rule "1.IH")
    moreover have "digit (n mod 10) \<noteq> newline"
      by (rule digit_not_newline) simp
    ultimately show ?thesis
      using False by (subst decimal.simps) (simp add: line_count_def)
  qed
qed

lemma line_count_fmt_ld: "line_count (fmt_ld w) = 0"
proof -
  have "line_count (CHR ''-'' # s) = line_count s" for s
    by (simp add: line_count_def newline_def)
  then show ?thesis
    by (simp add: fmt_ld_def line_count_decimal)
qed

lemma line_count_not_found_message:
  "line_count (not_found_message command) = 1 + line_count (c_str command)"
  by (simp add: not_found_message_def line_count_def newline_def)

lemma line_count_create_failed_message:
  "line_count (create_failed_message command error) = 1 + line_count (c_str command)"
  using line_count_fmt_ld [of error]
  by (simp add: create_failed_message_def line_count_def newline_def)

lemma line_count_launch_command: "line_count (c_str launch_command) = 0"
  by (simp add: launch_command_def command_line_def forward_arguments_eq GetDoubleQuotedString_def
      script_path_def c_str_def line_count_def nul_def newline_def dquote_def backslash_def)

text \<open>
  Claim C2 as stated fails: \<open>main\<close> calls \<open>ExecuteCommand\<close> with \<open>printError\<close> set, so
  a failed \<open>CreateProcess\<close> writes its own message before it throws, and the handler
  writes the failure line after it. Two lines are on the error stream.
\<close>

theorem create_process_failure_two_lines:
  "CreateProcess os_no_python (c_str launch_command) = Failed ERROR_FILE_NOT_FOUND \<and>
   main os_no_python [''mover.exe''] =
     Some \<lparr>stderr = not_found_message launch_command @ failed_line, status = 1\<rparr> \<and>
   line_count (not_found_message launch_command @ failed_line) = 2"
proof -
  have "main_try os_no_python [''mover.exe''] =
      ExecuteCommand os_no_python launch_command True"
    unfolding launch_command_def os_no_python_def
    by (rule main_try_launch [OF GetCurrentModuleName_installed
          GetPythonExecutable_print_script FindPythonScript_exe_path])
  moreover have failed: "CreateProcess os_no_python (c_str launch_command) = Failed ERROR_FILE_NOT_FOUND"
    by (simp add: os_no_python_def CreateProcess_installed)
  ultimately have "main os_no_python [''mover.exe''] =
     Some \<lparr>stderr = not_found_message launch_command @ failed_line, status = 1\<rparr>"
    by (simp add: main_def ExecuteCommand_def)
  moreover have "line_count (not_found_message launch_command @ failed_line) = 2"
    by (simp add: line_count_append line_count_failed_line line_count_not_found_message
        line_count_launch_command)
  ultimately show ?thesis
    using failed by simp
qed

text \<open>
  Claim C2, amended. When the module name cannot be resolved or has no directory, the
  launcher writes the one failure line and returns 1. When \<open>CreateProcess\<close> fails it
  writes the message of that failure, which quotes the command line, and then the
  failure line, and returns 1: two lines when the command line has no line break.
\<close>

theorem internal_failure_diagnostics:
  "(GetCurrentModuleName os = Inl e \<longrightarrow>
      main os argv = Some \<lparr>stderr = failed_line, status = 1\<rparr>) \<and>
   (GetCurrentModuleName os = Inr exeFullPath \<and> dirnameOf exeFullPath = Inl e \<longrightarrow>
      main os argv = Some \<lparr>stderr = failed_line, status = 1\<rparr>) \<and>
   (GetCurrentModuleName os = Inr exeFullPath \<and>
    GetPythonExecutable os exeFullPath = Inr pythonExecutable \<and>
    FindPythonScript exeFullPath = Inr pythonScript \<and>
    command = command_line pythonExecutable pythonScript argv \<and>
    CreateProcess os (c_str command) = Failed e \<longrightarrow>
      main os argv =
        Some \<lparr>stderr =
                (if e = ERROR_FILE_NOT_FOUND then not_found_message command
                 else create_failed_message command e) @ failed_line,
              status = 1\<rparr> \<and>
      line_count
        ((if e = ERROR_FILE_NOT_FOUND then not_found_message command
          else create_failed_message command e) @ failed_line) =
        2 + line_count (c_str command)) \<and>
   line_count failed_line = 1"
proof -
  have module: "main os argv = Some \<lparr>stderr = failed_line, status = 1\<rparr>"
    if "GetCurrentModuleName os = Inl e"
    using main_try_no_module [OF that] by (simp add: main_def)
  have directory: "main os argv = Some \<lparr>stderr = failed_line, status = 1\<rparr>"
    if "GetCurrentModuleName os = Inr exeFullPath" and "dirnameOf exeFullPath = Inl e"
    using main_try_no_directory [OF that] by (simp add: main_def)
  have create: "main os argv =
        Some \<lparr>stderr =
                (if e = ERROR_FILE_NOT_FOUND then not_found_message command
                 else create_failed_message command e) @ failed_line,
              status = 1\<rparr>"
    if "GetCurrentModuleName os = Inr exeFullPath"
      and "GetPythonExecutable os exeFullPath = Inr pythonExecutable"
      and "FindPythonScript exeFullPath = Inr pythonScript"
      and "command = command_line pythonExecutable pythonScript argv"
      and "CreateProcess os (c_str command) = Failed e"
    using main_try_launch [OF that(1,2,3), of argv] that(4,5)
    by (simp add: main_def ExecuteCommand_def)
  have lines: "line_count
        ((if e = ERROR_FILE_NOT_FOUND then not_found_message command
          else create_failed_message command e) @ failed_line) =
        2 + line_count (c_str command)"
    by (simp add: line_count_append line_count_failed_line line_count_not_found_message
        line_count_create_failed_message)
  from module directory create lines line_count_failed_line show ?thesis
    by blast
qed

theorem internal_failure_diagnostics_witness:
  "main os_no_module [''mover.exe''] = Some \<lparr>stderr = failed_line, status = 1\<rparr> \<and>
   main os_bare [''mover.exe''] = Some \<lparr>stderr = failed_line, status = 1\<rparr> \<and>
   main os_no_python [''mover.exe''] =
     Some \<lparr>stderr = not_found_message launch_command @ failed_line, status = 1\<rparr> \<and>
   line_count (not_found_message launch_command @ failed_line) = 2"
proof -
  have no_module: "GetCurrentModuleName os_no_module = Inl 5"
    by (simp add: GetCurrentModuleName_def os_no_module_def installed_def)
  have bare: "GetCurrentModuleName os_bare = Inr ''mover.exe''"
    by (simp add: GetCurrentModuleName_def os_bare_def installed_def MAX_PATH_def c_str_def nul_def)
  have no_directory: "dirnameOf ''mover.exe'' = Inl ERROR_PATH_NOT_FOUND"
    by (simp add: dirnameOf_def backslash_def)
  have module: "GetCurrentModuleName os_no_python = Inr exe_path"
    and python: "GetPythonExecutable os_no_python exe_path = Inr ''python.exe''"
    and failed: "CreateProcess os_no_python (c_str launch_command) = Failed ERROR_FILE_NOT_FOUND"
    by (simp_all add: os_no_python_def GetCurrentModuleName_installed
        GetPythonExecutable_print_script CreateProcess_installed)
  have command: "launch_command = command_line ''python.exe'' script_path [''mover.exe'']"
    by (simp add: launch_command_def)
  show ?thesis
    using internal_failure_diagnostics
        [where os = os_no_module and e = 5 and argv = "[''mover.exe'']"]
      internal_failure_diagnostics
        [where os = os_bare and e = ERROR_PATH_NOT_FOUND and argv = "[''mover.exe'']"
           and exeFullPath = "''mover.exe''"]
      internal_failure_diagnostics
        [where os = os_no_python and e = ERROR_FILE_NOT_FOUND and argv = "[''mover.exe'']"
           and exeFullPath = exe_path and pythonExecutable = "''python.exe''"
           and pythonScript = script_path and command = launch_command]
      no_module bare no_directory module python failed command FindPythonScript_exe_path
      line_count_launch_command
    by simp
qed

text \<open>
  Claim C4. When the child is created and \<open>GetExitCodeProcess\<close> reports the exit code
  \<open>exitCode\<close>, the launcher writes nothing and returns that code: \<open>main\<close> returns the
  same 32 bits, which read back as a \<open>DWORD\<close> are \<open>exitCode\<close>.
\<close>

theorem child_exit_code_returned:
  assumes "GetCurrentModuleName os = Inr exeFullPath"
    and "GetPythonExecutable os exeFullPath = Inr pythonExecutable"
    and "FindPythonScript exeFullPath = Inr pythonScript"
    and "CreateProcess os (c_str (command_line pythonExecutable pythonScript argv)) =
           Created (Waited (Some exitCode))"
  shows "main os argv = Some \<lparr>stderr = [], status = sint exitCode\<rparr> \<and>
     (word_of_int (sint exitCode) :: DWORD) = exitCode"
  using main_try_launch [OF assms(1,2,3), of argv] assms(4)
  by (simp add: main_def ExecuteCommand_def)

theorem child_exit_code_returned_witness:
  "main (os_exit 0) [''mover.exe''] = Some \<lparr>stderr = [], status = 0\<rparr> \<and>
   main (os_exit 1) [''mover.exe''] = Some \<lparr>stderr = [], status = 1\<rparr> \<and>
   main (os_exit 42) [''mover.exe''] = Some \<lparr>stderr = [], status = 42\<rparr>"
proof -
  have run: "main (os_exit c) [''mover.exe''] = Some \<lparr>stderr = [], status = sint c\<rparr>" for c
    using child_exit_code_returned
        [of "os_exit c" exe_path "''python.exe''" script_path "[''mover.exe'']" c]
    by (simp add: os_exit_def GetCurrentModuleName_installed GetPythonExecutable_print_script
        FindPythonScript_exe_path CreateProcess_installed)
  from run [of 0] run [of 1] run [of 42] show ?thesis
    by simp
qed

text \<open>
  Claim C10. When the child is created and \<open>GetExitCodeProcess\<close> fails, \<open>exitCode\<close>
  keeps its initial value \<open>NO_ERROR\<close>: the launcher writes nothing and returns 0.
\<close>

theorem unreported_exit_code_is_zero:
  assumes "GetCurrentModuleName os = Inr exeFullPath"
    and "GetPythonExecutable os exeFullPath = Inr pythonExecutable"
    and "FindPythonScript exeFullPath = Inr pythonScript"
    and "CreateProcess os (c_str (command_line pythonExecutable pythonScript argv)) =
           Created (Waited None)"
  shows "main os argv = Some \<lparr>stderr = [], status = 0\<rparr>"
  using main_try_launch [OF assms(1,2,3), of argv] assms(4)
  by (simp add: main_def ExecuteCommand_def NO_ERROR_def)

theorem unreported_exit_code_is_zero_witness:
  "main os_unreported [''mover.exe''] = Some \<lparr>stderr = [], status = 0\<rparr>"
  using unreported_exit_code_is_zero
      [of os_unreported exe_path "''python.exe''" script_path "[''mover.exe'']"]
  by (simp add: os_unreported_def GetCurrentModuleName_installed GetPythonExecutable_print_script
      FindPythonScript_exe_path CreateProcess_installed)

text \<open>
  The launcher fails to return only when the child it created never exits.
\<close>

lemma main_never_returns:
  "main os argv = None \<longleftrightarrow>
     (\<exists>exeFullPath pythonExecutable pythonScript.
        GetCurrentModuleName os = Inr exeFullPath \<and>
        GetPythonExecutable os exeFullPath = Inr pythonExecutable \<and>
        FindPythonScript exeFullPath = Inr pythonScript \<and>
        CreateProcess os (c_str (command_line pythonExecutable pythonScript argv)) =
          Created Never_exits)"
  by (auto simp: main_def main_try_def ExecuteCommand_def
      split: sum.splits option.splits spawn.splits child.splits prod.splits)

end
